theory Spec2Isabelle
  imports Main "HOL-Library.Sublist"
begin

section \<open>The configuration tree of \<^verbatim>\<open>pkg/config.go\<close>\<close>

text \<open>
  Every Go struct is a record with the fields of the source in the source's order.
  Field names carry the struct's name as a prefix, because several structs share a
  field name (\<^verbatim>\<open>Name\<close>, \<^verbatim>\<open>Regions\<close>, \<^verbatim>\<open>Metrics\<close>, ...).

  Go's \<^verbatim>\<open>int\<close> fields are modelled as \<^typ>\<open>int\<close>: the code only compares and
  prints them (\<^verbatim>\<open>== 0\<close>, \<^verbatim>\<open>< 1\<close>, \<^verbatim>\<open><\<close>, \<^verbatim>\<open>%d\<close>), it never does arithmetic,
  so no wrap-around can occur.

  A Go slice is either \<^verbatim>\<open>nil\<close> or a (possibly empty) sequence.  The two slices that the
  code compares with \<^verbatim>\<open>nil\<close> (\<^verbatim>\<open>Discovery.Jobs\<close> and \<^verbatim>\<open>Static\<close>) are modelled as
  \<^typ>\<open>'a list option\<close>, \<open>None\<close> being \<^verbatim>\<open>nil\<close>.  Every other slice is only measured
  with \<^verbatim>\<open>len\<close> or walked with \<^verbatim>\<open>range\<close>, where \<^verbatim>\<open>nil\<close> and the empty slice behave
  alike; they are plain lists.
\<close>

record Dimension =
  Dimension_Name :: string
  Dimension_Value :: string

record Tag =
  Tag_Key :: string
  Tag_Value :: string

record Metric =
  Metric_Name :: string
  Metric_Statistics :: "string list"
  Metric_AdditionalDimensions :: "Dimension list"
  Metric_Period :: int
  Metric_Length :: int
  Metric_Delay :: int
  Metric_NilToZero :: bool
  Metric_AddCloudwatchTimestamp :: bool

record Job =
  Job_Regions :: "string list"
  Job_Type :: string
  Job_RoleArns :: "string list"
  Job_AwsDimensions :: "string list"
  Job_SearchTags :: "Tag list"
  Job_CustomTags :: "Tag list"
  Job_Metrics :: "Metric list"
  Job_Length :: int
  Job_Delay :: int
  Job_Period :: int
  Job_AddCloudwatchTimestamp :: bool

record Static =
  Static_Name :: string
  Static_Regions :: "string list"
  Static_RoleArns :: "string list"
  Static_Namespace :: string
  Static_CustomTags :: "Tag list"
  Static_Dimensions :: "Dimension list"
  Static_Metrics :: "Metric list"

type_synonym exportedTagsOnMetrics = "string \<rightharpoonup> string list"

record Discovery =
  Discovery_ExportedTagsOnMetrics :: exportedTagsOnMetrics
  Discovery_Jobs :: "Job list option"

record ScrapeConf =
  ScrapeConf_Discovery :: Discovery
  ScrapeConf_Static :: "Static list option"

text \<open>
  A Go \<^verbatim>\<open>error\<close> is a value; \<open>None\<close> stands for the \<^verbatim>\<open>nil\<close> error.  The constructor
  records which call produced it: \<^verbatim>\<open>ioutil.ReadFile\<close>, \<^verbatim>\<open>yaml.Unmarshal\<close> or
  \<^verbatim>\<open>fmt.Errorf\<close> (with the formatted message).
\<close>

datatype error = ReadFileError string | UnmarshalError string | Errorf string

section \<open>Formatting\<close>

text \<open>
  The verbs \<^verbatim>\<open>%d\<close> and \<^verbatim>\<open>%v\<close> of \<^verbatim>\<open>fmt\<close> print an \<^verbatim>\<open>int\<close> in decimal, with a
  leading minus sign when negative; \<^verbatim>\<open>%s\<close> and \<^verbatim>\<open>%v\<close> print a string as it is.
\<close>

fun digits :: "nat \<Rightarrow> string" where
  "digits n = (if n < 10 then [char_of (48 + n)]
               else digits (n div 10) @ [char_of (48 + n mod 10)])"

declare digits.simps [simp del]

definition fmt_d :: "int \<Rightarrow> string" where
  "fmt_d i = (if i < 0 then CHR ''-'' # digits (nat (- i)) else digits (nat i))"

section \<open>The allow-list of services\<close>

definition supportedServices :: "string list" where
  "supportedServices =
    [''alb'', ''apigateway'', ''appsync'', ''asg'', ''cf'', ''docdb'', ''dynamodb'',
     ''ebs'', ''ec'', ''ec2'', ''ec2Spot'', ''ecs-svc'', ''ecs-containerinsights'',
     ''efs'', ''elb'', ''emr'', ''es'', ''firehose'', ''fsx'', ''gamelift'', ''kafka'',
     ''kinesis'', ''lambda'', ''ngw'', ''nlb'', ''rds'', ''redshift'', ''r53r'', ''s3'',
     ''sfn'', ''sns'', ''sqs'', ''tgw'', ''tgwa'', ''vpn'', ''wafv2'']"

text \<open>
  Modelled from the spec: \<^verbatim>\<open>stringInSlice\<close> is called by \<^verbatim>\<open>validateDiscoveryJob\<close> but
  is declared in another file of the package.  The spec describes it as an exact,
  case-sensitive membership test, written here as the linear scan it mentions.
\<close>

fun stringInSlice :: "string \<Rightarrow> string list \<Rightarrow> bool" where
  "stringInSlice a [] = False"
| "stringInSlice a (b # bs) = (if b = a then True else stringInSlice a bs)"

section \<open>Validation\<close>

text \<open>
  \<^verbatim>\<open>log.Warningf\<close> is the only effect of validation.  Each function returns the
  warning lines it has logged, in order, next to its error; a caller appends what its
  callees logged.  A function that returns early has logged what came before.
\<close>

type_synonym log = "string list"

text \<open>The two locals of \<^verbatim>\<open>validateMetric\<close>, lines 213--216 and 220--223.\<close>

definition mPeriod :: "Metric \<Rightarrow> Job option \<Rightarrow> int" where
  "mPeriod m discovery =
    (case discovery of
       None \<Rightarrow> Metric_Period m
     | Some j \<Rightarrow> if Metric_Period m = 0 then Job_Period j else Metric_Period m)"

definition mLength :: "Metric \<Rightarrow> Job option \<Rightarrow> int" where
  "mLength m discovery =
    (case discovery of
       None \<Rightarrow> Metric_Length m
     | Some j \<Rightarrow> if Metric_Length m = 0 then Job_Length j else Metric_Length m)"

definition metricLabel :: "Metric \<Rightarrow> nat \<Rightarrow> string \<Rightarrow> string" where
  "metricLabel m metricIdx parent =
    ''Metric ['' @ Metric_Name m @ ''/'' @ fmt_d (int metricIdx) @ ''] in '' @ parent"

definition lengthWarning :: "Metric \<Rightarrow> nat \<Rightarrow> string \<Rightarrow> Job option \<Rightarrow> string" where
  "lengthWarning m metricIdx parent discovery =
    metricLabel m metricIdx parent @ '': length('' @ fmt_d (mLength m discovery)
      @ '') is smaller than period('' @ fmt_d (mPeriod m discovery)
      @ ''). This can cause that the data requested is not ready and generate data gaps''"

definition validateMetric :: "Metric \<Rightarrow> nat \<Rightarrow> string \<Rightarrow> Job option \<Rightarrow> log \<times> error option" where
  "validateMetric m metricIdx parent discovery =
    (if Metric_Name m = ''''
     then ([], Some (Errorf (metricLabel m metricIdx parent @ '': Name should not be empty'')))
     else if length (Metric_Statistics m) = 0
     then ([], Some (Errorf (metricLabel m metricIdx parent @ '': Statistics should not be empty'')))
     else if mPeriod m discovery < 1
     then ([], Some (Errorf (metricLabel m metricIdx parent
                       @ '': Period value should be a positive integer'')))
     else if mLength m discovery < mPeriod m discovery
     then ([lengthWarning m metricIdx parent discovery], None)
     else ([], None))"

text \<open>
  The three loops of validation have one shape:
  \<^verbatim>\<open>for idx, x := range xs { err := body(x, idx); if err != nil { return err } }\<close>.
  The index counts up from \<open>idx\<close>, and the first error ends the loop.
\<close>

fun rangeUntilError ::
  "('a \<Rightarrow> nat \<Rightarrow> log \<times> error option) \<Rightarrow> 'a list \<Rightarrow> nat \<Rightarrow> log \<times> error option" where
  "rangeUntilError body [] idx = ([], None)"
| "rangeUntilError body (x # rest) idx =
    (case body x idx of
       (w, Some err) \<Rightarrow> (w, Some err)
     | (w, None) \<Rightarrow>
         (case rangeUntilError body rest (Suc idx) of (w', r) \<Rightarrow> (w @ w', r)))"

definition discoveryParent :: "Job \<Rightarrow> nat \<Rightarrow> string" where
  "discoveryParent j jobIdx =
    ''Discovery job ['' @ Job_Type j @ ''/'' @ fmt_d (int jobIdx) @ '']''"

definition validateDiscoveryJob :: "Job \<Rightarrow> nat \<Rightarrow> log \<times> error option" where
  "validateDiscoveryJob j jobIdx =
    (case (if Job_Type j \<noteq> ''''
           then (if \<not> stringInSlice (Job_Type j) supportedServices
                 then Some (Errorf (''Discovery job ['' @ fmt_d (int jobIdx)
                              @ '']: Service is not in known list!: '' @ Job_Type j))
                 else None)
           else Some (Errorf (''Discovery job ['' @ fmt_d (int jobIdx)
                        @ '']: Type should not be empty''))) of
       Some err \<Rightarrow> ([], Some err)
     | None \<Rightarrow>
         if length (Job_Regions j) = 0
         then ([], Some (Errorf (discoveryParent j jobIdx @ '': Regions should not be empty'')))
         else if length (Job_Metrics j) = 0
         then ([], Some (Errorf (discoveryParent j jobIdx @ '': Metrics should not be empty'')))
         else rangeUntilError
                (\<lambda>metric metricIdx.
                   validateMetric metric metricIdx (discoveryParent j jobIdx) (Some j))
                (Job_Metrics j) 0)"

definition staticParent :: "Static \<Rightarrow> nat \<Rightarrow> string" where
  "staticParent j jobIdx =
    ''Static job ['' @ Static_Name j @ ''/'' @ fmt_d (int jobIdx) @ '']''"

definition validateStaticJob :: "Static \<Rightarrow> nat \<Rightarrow> log \<times> error option" where
  "validateStaticJob j jobIdx =
    (if Static_Name j = ''''
     then ([], Some (Errorf (''Static job ['' @ fmt_d (int jobIdx)
                       @ '']: Name should not be empty'')))
     else if Static_Namespace j = ''''
     then ([], Some (Errorf (staticParent j jobIdx @ '': Namespace should not be empty'')))
     else if length (Static_Regions j) = 0
     then ([], Some (Errorf (staticParent j jobIdx @ '': Regions should not be empty'')))
     else rangeUntilError
            (\<lambda>metric metricIdx. validateMetric metric metricIdx (staticParent j jobIdx) None)
            (Static_Metrics j) 0)"

definition validate :: "ScrapeConf \<Rightarrow> log \<times> error option" where
  "validate c =
    (if Discovery_Jobs (ScrapeConf_Discovery c) = None \<and> ScrapeConf_Static c = None
     then ([], Some (Errorf ''At least 1 Discovery job or 1 Static must be defined''))
     else
       (case (case Discovery_Jobs (ScrapeConf_Discovery c) of
                None \<Rightarrow> ([], None)
              | Some jobs \<Rightarrow> rangeUntilError validateDiscoveryJob jobs 0) of
          (w, Some err) \<Rightarrow> (w, Some err)
        | (w, None) \<Rightarrow>
            (case (case ScrapeConf_Static c of
                     None \<Rightarrow> ([], None)
                   | Some jobs \<Rightarrow> rangeUntilError validateStaticJob jobs 0) of
               (w', r) \<Rightarrow> (w @ w', r))))"

section \<open>Loading\<close>

text \<open>
  The two normalisation loops of \<^verbatim>\<open>Load\<close> (lines 117--126) write through the index
  into the slice they range over.  \<open>n\<close> is the index of the iteration; the loop ends at
  the length of the slice.
\<close>

function defaultJobRoleArns :: "Job list \<Rightarrow> nat \<Rightarrow> Job list" where
  "defaultJobRoleArns jobs n =
    (if n < length jobs
     then defaultJobRoleArns
            (if length (Job_RoleArns (jobs ! n)) = 0
             then jobs[n := (jobs ! n)\<lparr>Job_RoleArns := ['''']\<rparr>] else jobs)
            (Suc n)
     else jobs)"
  by pat_completeness auto
termination
  by (relation "measure (\<lambda>(jobs, n). length jobs - n)") (auto split: if_splits)

function defaultStaticRoleArns :: "Static list \<Rightarrow> nat \<Rightarrow> Static list" where
  "defaultStaticRoleArns jobs n =
    (if n < length jobs
     then defaultStaticRoleArns
            (if length (Static_RoleArns (jobs ! n)) = 0
             then jobs[n := (jobs ! n)\<lparr>Static_RoleArns := ['''']\<rparr>] else jobs)
            (Suc n)
     else jobs)"
  by pat_completeness auto
termination
  by (relation "measure (\<lambda>(jobs, n). length jobs - n)") (auto split: if_splits)

declare defaultJobRoleArns.simps [simp del] defaultStaticRoleArns.simps [simp del]

definition normalize :: "ScrapeConf \<Rightarrow> ScrapeConf" where
  "normalize c =
    (let c1 = c\<lparr>ScrapeConf_Discovery := (ScrapeConf_Discovery c)
                  \<lparr>Discovery_Jobs :=
                     map_option (\<lambda>jobs. defaultJobRoleArns jobs 0)
                       (Discovery_Jobs (ScrapeConf_Discovery c))\<rparr>\<rparr>
     in c1\<lparr>ScrapeConf_Static :=
             map_option (\<lambda>jobs. defaultStaticRoleArns jobs 0) (ScrapeConf_Static c1)\<rparr>)"

text \<open>
  \<^verbatim>\<open>Load\<close> reads the file, decodes it into the receiver, normalises the receiver and
  validates it.  The file system and the YAML decoder are outside the package: they
  are the parameters \<open>readFile\<close> (the bytes of a file, or an error) and \<open>unmarshal\<close>
  (the receiver after decoding into it, and the decoder's error).  The result is the
  receiver as \<^verbatim>\<open>Load\<close> leaves it, what was logged, and the error returned.
\<close>

definition Load ::
  "(string \<Rightarrow> error + 'b) \<Rightarrow> ('b \<Rightarrow> ScrapeConf \<Rightarrow> ScrapeConf \<times> error option)
     \<Rightarrow> ScrapeConf \<Rightarrow> string \<Rightarrow> ScrapeConf \<times> log \<times> error option" where
  "Load readFile unmarshal c file =
    (case readFile file of
       Inl err \<Rightarrow> (c, [], Some err)
     | Inr yamlFile \<Rightarrow>
         (case unmarshal yamlFile c of
            (c', Some err) \<Rightarrow> (c', [], Some err)
          | (c', None) \<Rightarrow>
              (let c'' = normalize c'
               in (case validate c'' of (w, r) \<Rightarrow> (c'', w, r)))))"

section \<open>Auxiliary notions for the statements\<close>

text \<open>
  The jobs of a configuration as \<^verbatim>\<open>range\<close> sees them: a \<^verbatim>\<open>nil\<close> slice has no element.
\<close>

definition discoveryJobs :: "ScrapeConf \<Rightarrow> Job list" where
  "discoveryJobs c = (case Discovery_Jobs (ScrapeConf_Discovery c) of None \<Rightarrow> [] | Some jobs \<Rightarrow> jobs)"

definition staticJobs :: "ScrapeConf \<Rightarrow> Static list" where
  "staticJobs c = (case ScrapeConf_Static c of None \<Rightarrow> [] | Some jobs \<Rightarrow> jobs)"

text \<open>
  The normaliser in the words of the spec: a job whose credential-role list is empty
  gets the single-element list holding the empty string, any other job stays as it is.
\<close>

definition defaultJob :: "Job \<Rightarrow> Job" where
  "defaultJob j = (if Job_RoleArns j = [] then j\<lparr>Job_RoleArns := ['''']\<rparr> else j)"

definition defaultStatic :: "Static \<Rightarrow> Static" where
  "defaultStatic j = (if Static_RoleArns j = [] then j\<lparr>Static_RoleArns := ['''']\<rparr> else j)"

definition withRoleArnsDefaults :: "ScrapeConf \<Rightarrow> ScrapeConf" where
  "withRoleArnsDefaults c =
    c\<lparr>ScrapeConf_Discovery := (ScrapeConf_Discovery c)
         \<lparr>Discovery_Jobs := map_option (map defaultJob) (Discovery_Jobs (ScrapeConf_Discovery c))\<rparr>,
      ScrapeConf_Static := map_option (map defaultStatic) (ScrapeConf_Static c)\<rparr>"

subsection \<open>Example documents, as decoded\<close>

text \<open>
  The zero value \<^verbatim>\<open>ScrapeConf{}\<close> that the test file loads into, and the pieces of the
  decoded forms of the documents of the spec's scenarios.  The decoder gives a key that
  is absent the zero value (\<^verbatim>\<open>nil\<close> for a slice) and the sequence \<^verbatim>\<open>[]\<close> an empty
  slice that is not \<^verbatim>\<open>nil\<close>.
\<close>

definition confOf :: "Job list option \<Rightarrow> Static list option \<Rightarrow> ScrapeConf" where
  "confOf jobs statics =
     \<lparr>ScrapeConf_Discovery =
        \<lparr>Discovery_ExportedTagsOnMetrics = Map.empty, Discovery_Jobs = jobs\<rparr>,
      ScrapeConf_Static = statics\<rparr>"

definition zeroConf :: ScrapeConf where
  "zeroConf = confOf None None"

definition exMetric :: "string \<Rightarrow> string list \<Rightarrow> int \<Rightarrow> int \<Rightarrow> Metric" where
  "exMetric name statistics period len =
     \<lparr>Metric_Name = name, Metric_Statistics = statistics, Metric_AdditionalDimensions = [],
      Metric_Period = period, Metric_Length = len, Metric_Delay = 0,
      Metric_NilToZero = False, Metric_AddCloudwatchTimestamp = False\<rparr>"

definition exJob :: "string \<Rightarrow> string list \<Rightarrow> Metric list \<Rightarrow> int \<Rightarrow> int \<Rightarrow> Job" where
  "exJob type regions metrics len period =
     \<lparr>Job_Regions = regions, Job_Type = type, Job_RoleArns = [], Job_AwsDimensions = [],
      Job_SearchTags = [], Job_CustomTags = [], Job_Metrics = metrics, Job_Length = len,
      Job_Delay = 0, Job_Period = period, Job_AddCloudwatchTimestamp = False\<rparr>"

definition exStatic :: "string \<Rightarrow> string \<Rightarrow> string list \<Rightarrow> string list \<Rightarrow> Metric list \<Rightarrow> Static" where
  "exStatic name namespace regions roleArns metrics =
     \<lparr>Static_Name = name, Static_Regions = regions, Static_RoleArns = roleArns,
      Static_Namespace = namespace, Static_CustomTags = [], Static_Dimensions = [],
      Static_Metrics = metrics\<rparr>"

text \<open>A file system holding one readable file, and a decoder that yields a given tree.\<close>

definition readsFile :: "string \<Rightarrow> error + string" where
  "readsFile file = Inr ''''"

definition decodesTo :: "ScrapeConf \<Rightarrow> string \<Rightarrow> ScrapeConf \<Rightarrow> ScrapeConf \<times> error option" where
  "decodesTo decoded yamlFile c = (decoded, None)"

text \<open>
  A document with one discovery job that names no role and one static job that names one.
\<close>

definition exC2 :: ScrapeConf where
  "exC2 = confOf (Some [exJob ''ec2'' [''eu-west-1''] [exMetric ''CPUUtilization'' [''Average''] 300 0] 60 0])
                 (Some [exStatic ''x'' ''AWS/EC2'' [''eu-west-1''] [''arn:aws:iam::1:role/r''] []])"

subsection \<open>The rules of validation, listed without stopping\<close>

text \<open>
  The order of validation in the words of the spec: the root invariant, then the
  discovery jobs in sequence order, then the static jobs in sequence order, and within a
  job its own rules and then its metrics in sequence order.  Each function below lists
  the message of every rule that its argument violates, in that order, and never stops
  at a violation.  The rules of jobs and metrics are those of section 4.3 of the spec,
  which are the tests of the source.
\<close>

definition metricViolations :: "Metric \<Rightarrow> nat \<Rightarrow> string \<Rightarrow> Job option \<Rightarrow> error list" where
  "metricViolations m metricIdx parent discovery =
    (if Metric_Name m = ''''
     then [Errorf (metricLabel m metricIdx parent @ '': Name should not be empty'')] else [])
    @ (if Metric_Statistics m = []
       then [Errorf (metricLabel m metricIdx parent @ '': Statistics should not be empty'')] else [])
    @ (if mPeriod m discovery < 1
       then [Errorf (metricLabel m metricIdx parent @ '': Period value should be a positive integer'')]
       else [])"

fun rangeViolations :: "('a \<Rightarrow> nat \<Rightarrow> error list) \<Rightarrow> 'a list \<Rightarrow> nat \<Rightarrow> error list" where
  "rangeViolations v [] idx = []"
| "rangeViolations v (x # rest) idx = v x idx @ rangeViolations v rest (Suc idx)"

definition discoveryJobViolations :: "Job \<Rightarrow> nat \<Rightarrow> error list" where
  "discoveryJobViolations j jobIdx =
    (if Job_Type j = ''''
     then [Errorf (''Discovery job ['' @ fmt_d (int jobIdx) @ '']: Type should not be empty'')]
     else if stringInSlice (Job_Type j) supportedServices then []
     else [Errorf (''Discovery job ['' @ fmt_d (int jobIdx)
             @ '']: Service is not in known list!: '' @ Job_Type j)])
    @ (if Job_Regions j = []
       then [Errorf (discoveryParent j jobIdx @ '': Regions should not be empty'')] else [])
    @ (if Job_Metrics j = []
       then [Errorf (discoveryParent j jobIdx @ '': Metrics should not be empty'')] else [])
    @ rangeViolations
        (\<lambda>metric metricIdx. metricViolations metric metricIdx (discoveryParent j jobIdx) (Some j))
        (Job_Metrics j) 0"

definition staticJobViolations :: "Static \<Rightarrow> nat \<Rightarrow> error list" where
  "staticJobViolations j jobIdx =
    (if Static_Name j = ''''
     then [Errorf (''Static job ['' @ fmt_d (int jobIdx) @ '']: Name should not be empty'')]
     else [])
    @ (if Static_Namespace j = ''''
       then [Errorf (staticParent j jobIdx @ '': Namespace should not be empty'')] else [])
    @ (if Static_Regions j = []
       then [Errorf (staticParent j jobIdx @ '': Regions should not be empty'')] else [])
    @ rangeViolations
        (\<lambda>metric metricIdx. metricViolations metric metricIdx (staticParent j jobIdx) None)
        (Static_Metrics j) 0"

text \<open>
  The list of the spec.  Its root rule is the spec's: \<^verbatim>\<open>Discovery.Jobs\<close> and
  \<^verbatim>\<open>Static\<close> must not both be empty.
\<close>

definition specViolations :: "ScrapeConf \<Rightarrow> error list" where
  "specViolations c =
    (if discoveryJobs c = [] \<and> staticJobs c = []
     then [Errorf ''At least 1 Discovery job or 1 Static must be defined''] else [])
    @ rangeViolations discoveryJobViolations (discoveryJobs c) 0
    @ rangeViolations staticJobViolations (staticJobs c) 0"

text \<open>
  The list of the code: the tests of \<^verbatim>\<open>validate\<close> in the order of the source, with
  every early return taken out.  It differs from the list of the spec in the root test
  only, which in the source (line 136) compares both slices with \<^verbatim>\<open>nil\<close>; two
  empty slices that are not \<^verbatim>\<open>nil\<close> break the spec's root rule and pass this
  test.
\<close>

definition codeViolations :: "ScrapeConf \<Rightarrow> error list" where
  "codeViolations c =
    (if Discovery_Jobs (ScrapeConf_Discovery c) = None \<and> ScrapeConf_Static c = None
     then [Errorf ''At least 1 Discovery job or 1 Static must be defined''] else [])
    @ rangeViolations discoveryJobViolations (discoveryJobs c) 0
    @ rangeViolations staticJobViolations (staticJobs c) 0"

text \<open>
  A document that breaks three rules: its discovery job names no region, the metric of
  that job has no name, and its static job has no namespace.
\<close>

definition exC8 :: ScrapeConf where
  "exC8 = confOf (Some [exJob ''ec2'' [] [exMetric '''' [''Average''] 300 0] 60 0])
                 (Some [exStatic ''x'' [] [''eu-west-1''] [] []])"

definition first :: "'a list \<Rightarrow> 'a option" where
  "first xs = (case xs of [] \<Rightarrow> None | x # _ \<Rightarrow> Some x)"

text \<open>Scenario C of the spec: one static job named \<open>x\<close> with an empty namespace.\<close>

definition exScenarioC :: ScrapeConf where
  "exScenarioC = confOf None (Some [exStatic ''x'' [] [''eu-west-1''] [] []])"

text \<open>
  Scenario D of the spec: one discovery job of a type that is not supported.  Then the
  same job behind a job of a supported type that names no region, and scenario C behind a
  discovery job that names no type.
\<close>

definition exScenarioD :: ScrapeConf where
  "exScenarioD = confOf (Some [exJob ''notarealservice'' [''eu-west-1''] [] 0 0]) None"

definition exC3 :: ScrapeConf where
  "exC3 = confOf (Some [exJob ''ec2'' [] [] 0 0, exJob ''notarealservice'' [''eu-west-1''] [] 0 0]) None"

definition exC9 :: ScrapeConf where
  "exC9 = confOf (Some [exJob '''' [''eu-west-1''] [] 0 0])
                 (Some [exStatic ''x'' [] [''eu-west-1''] [] []])"

text \<open>
  A static job whose only metric has period zero, once without and once with
  statistics.  Then scenario B of the spec (a discovery job with length 60 whose metric
  has period 300 and no length of its own) next to a static job whose metric has period
  60 and length 0.
\<close>

definition exC5 :: ScrapeConf where
  "exC5 = confOf None (Some [exStatic ''x'' ''AWS/EC2'' [''eu-west-1''] []
                               [exMetric ''CPUUtilization'' [] 0 0]])"

definition exC5ok :: ScrapeConf where
  "exC5ok = confOf None (Some [exStatic ''x'' ''AWS/EC2'' [''eu-west-1''] []
                                 [exMetric ''CPUUtilization'' [''Average''] 0 0]])"

definition exScenarioB :: ScrapeConf where
  "exScenarioB = confOf
     (Some [exJob ''ec2'' [''eu-west-1''] [exMetric ''CPUUtilization'' [''Average''] 300 0] 60 0])
     (Some [exStatic ''x'' ''AWS/EC2'' [''eu-west-1''] []
              [exMetric ''CPUUtilization'' [''Average''] 60 0]])"

section \<open>Properties\<close>

subsection \<open>Decimal rendering of small numbers\<close>

lemma fmt_d_0 [simp]: "fmt_d 0 = ''0''"
  by code_simp

lemma fmt_d_1 [simp]: "fmt_d 1 = ''1''"
  by code_simp

lemma fmt_d_60 [simp]: "fmt_d 60 = ''60''"
  by code_simp

lemma fmt_d_300 [simp]: "fmt_d 300 = ''300''"
  by code_simp

subsection \<open>Membership and the normalisation loops\<close>

lemma stringInSlice_iff: "stringInSlice a bs \<longleftrightarrow> a \<in> set bs"
  by (induction bs) auto

lemma defaultJobRoleArns_from:
  "defaultJobRoleArns jobs n = take n jobs @ map defaultJob (drop n jobs)"
proof (induction jobs n rule: defaultJobRoleArns.induct)
  case (1 jobs n)
  show ?case
  proof (cases "n < length jobs")
    case False
    then show ?thesis by (simp add: defaultJobRoleArns.simps [of jobs n])
  next
    case True
    let ?jobs' = "if length (Job_RoleArns (jobs ! n)) = 0
             then jobs[n := (jobs ! n)\<lparr>Job_RoleArns := ['''']\<rparr>] else jobs"
    have step: "defaultJobRoleArns jobs n = defaultJobRoleArns ?jobs' (Suc n)"
      using True by (subst defaultJobRoleArns.simps) simp
    have ih: "defaultJobRoleArns ?jobs' (Suc n) = take (Suc n) ?jobs' @ map defaultJob (drop (Suc n) ?jobs')"
      using "1.IH" [OF True] .
    have t: "take (Suc n) ?jobs' = take n jobs @ [defaultJob (jobs ! n)]"
      using True by (simp add: take_Suc_conv_app_nth defaultJob_def)
    have d: "drop (Suc n) ?jobs' = drop (Suc n) jobs"
      by simp
    have "drop n jobs = jobs ! n # drop (Suc n) jobs"
      using True by (simp add: Cons_nth_drop_Suc)
    then show ?thesis
      using step ih t d by simp
  qed
qed

lemma defaultStaticRoleArns_from:
  "defaultStaticRoleArns jobs n = take n jobs @ map defaultStatic (drop n jobs)"
proof (induction jobs n rule: defaultStaticRoleArns.induct)
  case (1 jobs n)
  show ?case
  proof (cases "n < length jobs")
    case False
    then show ?thesis by (simp add: defaultStaticRoleArns.simps [of jobs n])
  next
    case True
    let ?jobs' = "if length (Static_RoleArns (jobs ! n)) = 0
             then jobs[n := (jobs ! n)\<lparr>Static_RoleArns := ['''']\<rparr>] else jobs"
    have step: "defaultStaticRoleArns jobs n = defaultStaticRoleArns ?jobs' (Suc n)"
      using True by (subst defaultStaticRoleArns.simps) simp
    have ih: "defaultStaticRoleArns ?jobs' (Suc n) = take (Suc n) ?jobs' @ map defaultStatic (drop (Suc n) ?jobs')"
      using "1.IH" [OF True] .
    have t: "take (Suc n) ?jobs' = take n jobs @ [defaultStatic (jobs ! n)]"
      using True by (simp add: take_Suc_conv_app_nth defaultStatic_def)
    have d: "drop (Suc n) ?jobs' = drop (Suc n) jobs"
      by simp
    have "drop n jobs = jobs ! n # drop (Suc n) jobs"
      using True by (simp add: Cons_nth_drop_Suc)
    then show ?thesis
      using step ih t d by simp
  qed
qed

lemma validateMetric_RoleArns:
  "validateMetric m i p (Some (j\<lparr>Job_RoleArns := r\<rparr>)) = validateMetric m i p (Some j)"
  by (simp add: validateMetric_def mPeriod_def mLength_def lengthWarning_def)

lemma validateDiscoveryJob_default: "validateDiscoveryJob (defaultJob j) idx = validateDiscoveryJob j idx"
  by (simp add: validateDiscoveryJob_def defaultJob_def discoveryParent_def validateMetric_RoleArns)

lemma validateStaticJob_default: "validateStaticJob (defaultStatic j) idx = validateStaticJob j idx"
  by (simp add: validateStaticJob_def defaultStatic_def staticParent_def)

lemma rangeUntilError_map:
  "(\<And>x i. body (f x) i = body x i) \<Longrightarrow> rangeUntilError body (map f xs) n = rangeUntilError body xs n"
  by (induction xs arbitrary: n) simp_all

lemma validate_normalize: "validate (normalize c) = validate c"
  by (cases "Discovery_Jobs (ScrapeConf_Discovery c)"; cases "ScrapeConf_Static c")
     (simp_all add: validate_def normalize_def Let_def defaultJobRoleArns_from
        defaultStaticRoleArns_from rangeUntilError_map validateDiscoveryJob_default
        validateStaticJob_default)

lemma rangeUntilError_Cons_None:
  "snd (rangeUntilError body (x # xs) n) = None \<longleftrightarrow>
     snd (body x n) = None \<and> snd (rangeUntilError body xs (Suc n)) = None"
  by (auto split: prod.splits option.splits)

lemma rangeUntilError_None_iff:
  "snd (rangeUntilError body xs n) = None \<longleftrightarrow> (\<forall>i<length xs. snd (body (xs ! i) (n + i)) = None)"
proof (induction xs arbitrary: n)
  case Nil
  then show ?case by simp
next
  case (Cons x xs)
  have "(\<forall>i<length (x # xs). snd (body ((x # xs) ! i) (n + i)) = None) \<longleftrightarrow>
        snd (body x n) = None \<and> (\<forall>i<length xs. snd (body (xs ! i) (Suc n + i)) = None)"
    by (simp add: All_less_Suc2)
  then show ?case
    unfolding rangeUntilError_Cons_None Cons.IH by simp
qed

subsection \<open>What Load leaves in the receiver\<close>

lemma normalize_eq: "normalize c = withRoleArnsDefaults c"
  by (simp add: normalize_def withRoleArnsDefaults_def Let_def defaultJobRoleArns_from
      defaultStaticRoleArns_from)

lemma Load_decoded:
  assumes "readFile file = Inr yamlFile" and "unmarshal yamlFile c = (decoded, None)"
  shows "Load readFile unmarshal c file =
           (withRoleArnsDefaults decoded, fst (validate decoded), snd (validate decoded))"
  using assms
  by (simp add: Load_def Let_def validate_normalize normalize_eq [symmetric] split: prod.splits)

lemma discoveryJobs_defaults: "discoveryJobs (withRoleArnsDefaults c) = map defaultJob (discoveryJobs c)"
  by (simp add: discoveryJobs_def withRoleArnsDefaults_def split: option.splits)

lemma staticJobs_defaults: "staticJobs (withRoleArnsDefaults c) = map defaultStatic (staticJobs c)"
  by (simp add: staticJobs_def withRoleArnsDefaults_def split: option.splits)

text \<open>
  Claim C2.  When the file is read and decoded without error, the receiver that \<^verbatim>\<open>Load\<close>
  leaves has as many discovery jobs and static jobs as the decoded document, and at every
  index the job is the decoded one with \<^verbatim>\<open>RoleArns\<close> set to the one-element list
  holding the empty string when its \<^verbatim>\<open>RoleArns\<close> had length zero, and the decoded job
  itself, unchanged, otherwise.
\<close>

theorem C2_RoleArns_defaulted:
  assumes "readFile file = Inr yamlFile" and "unmarshal yamlFile c = (decoded, None)"
  shows "length (discoveryJobs (fst (Load readFile unmarshal c file))) = length (discoveryJobs decoded)
    \<and> length (staticJobs (fst (Load readFile unmarshal c file))) = length (staticJobs decoded)
    \<and> (\<forall>n<length (discoveryJobs decoded).
          discoveryJobs (fst (Load readFile unmarshal c file)) ! n =
            (if length (Job_RoleArns (discoveryJobs decoded ! n)) = 0
             then (discoveryJobs decoded ! n)\<lparr>Job_RoleArns := ['''']\<rparr>
             else discoveryJobs decoded ! n))
    \<and> (\<forall>n<length (staticJobs decoded).
          staticJobs (fst (Load readFile unmarshal c file)) ! n =
            (if length (Static_RoleArns (staticJobs decoded ! n)) = 0
             then (staticJobs decoded ! n)\<lparr>Static_RoleArns := ['''']\<rparr>
             else staticJobs decoded ! n))"
proof -
  have L: "fst (Load readFile unmarshal c file) = withRoleArnsDefaults decoded"
    using Load_decoded [of readFile "file" yamlFile unmarshal c decoded] assms by simp
  show ?thesis
    unfolding L
    by (simp add: discoveryJobs_defaults staticJobs_defaults defaultJob_def defaultStatic_def)
qed

theorem C2_RoleArns_defaulted_witness:
  "Job_RoleArns (discoveryJobs (fst (Load readsFile (decodesTo exC2) zeroConf ''config.yml'')) ! 0) = ['''']
   \<and> staticJobs (fst (Load readsFile (decodesTo exC2) zeroConf ''config.yml'')) ! 0
        = exStatic ''x'' ''AWS/EC2'' [''eu-west-1''] [''arn:aws:iam::1:role/r''] []"
  using C2_RoleArns_defaulted [of readsFile "''config.yml''" "''''" "decodesTo exC2" zeroConf exC2]
  by (simp add: readsFile_def decodesTo_def exC2_def confOf_def discoveryJobs_def staticJobs_def
      exJob_def exStatic_def)

subsection \<open>The order of validation\<close>

lemma first_append: "first (xs @ ys) = (case first xs of None \<Rightarrow> first ys | Some e \<Rightarrow> Some e)"
  by (cases xs) (simp_all add: first_def)

lemma first_simps [simp]: "first [] = None" "first (x # xs) = Some x"
  by (simp_all add: first_def)

lemma rangeUntilError_first:
  assumes "\<And>x i. snd (body x i) = first (v x i)"
  shows "snd (rangeUntilError body xs n) = first (rangeViolations v xs n)"
proof (induction xs arbitrary: n)
  case Nil
  show ?case by simp
next
  case (Cons x xs)
  show ?case
  proof (cases "snd (body x n)")
    case None
    then have "snd (rangeUntilError body (x # xs) n) = snd (rangeUntilError body xs (Suc n))"
      by (auto split: prod.splits option.splits)
    moreover have "first (v x n) = None"
      using None assms by simp
    ultimately show ?thesis
      by (simp add: first_append Cons.IH)
  next
    case (Some e)
    then have "snd (rangeUntilError body (x # xs) n) = Some e"
      by (auto split: prod.splits option.splits)
    moreover have "first (v x n) = Some e"
      using Some assms by simp
    ultimately show ?thesis
      by (simp add: first_append)
  qed
qed

lemma validateMetric_first:
  "snd (validateMetric m i parent d) = first (metricViolations m i parent d)"
  by (simp add: validateMetric_def metricViolations_def)

lemma validateDiscoveryJob_first:
  "snd (validateDiscoveryJob j idx) = first (discoveryJobViolations j idx)"
  by (simp add: validateDiscoveryJob_def discoveryJobViolations_def first_append
      rangeUntilError_first [where v = "\<lambda>m i. metricViolations m i (discoveryParent j idx) (Some j)"]
      validateMetric_first)

lemma validateStaticJob_first:
  "snd (validateStaticJob j idx) = first (staticJobViolations j idx)"
  by (simp add: validateStaticJob_def staticJobViolations_def first_append
      rangeUntilError_first [where v = "\<lambda>m i. metricViolations m i (staticParent j idx) None"]
      validateMetric_first)

lemma validate_first: "snd (validate c) = first (codeViolations c)"
proof -
  have d: "snd (rangeUntilError validateDiscoveryJob jobs 0)
             = first (rangeViolations discoveryJobViolations jobs 0)" for jobs
    by (rule rangeUntilError_first) (rule validateDiscoveryJob_first)
  have s: "snd (rangeUntilError validateStaticJob jobs 0)
             = first (rangeViolations staticJobViolations jobs 0)" for jobs
    by (rule rangeUntilError_first) (rule validateStaticJob_first)
  show ?thesis
  proof (cases "Discovery_Jobs (ScrapeConf_Discovery c)")
    case None
    show ?thesis
    proof (cases "ScrapeConf_Static c")
      case None
      with \<open>Discovery_Jobs (ScrapeConf_Discovery c) = None\<close> show ?thesis
        by (simp add: validate_def codeViolations_def)
    next
      case (Some statics)
      with None s [of statics] show ?thesis
        by (simp add: validate_def codeViolations_def discoveryJobs_def staticJobs_def
            split: prod.splits)
    qed
  next
    case (Some jobs)
    show ?thesis
    proof (cases "ScrapeConf_Static c")
      case None
      with Some d [of jobs] show ?thesis
        by (auto simp: validate_def codeViolations_def discoveryJobs_def staticJobs_def
            split: prod.splits option.splits)
    next
      case (Some statics)
      with \<open>Discovery_Jobs (ScrapeConf_Discovery c) = Some jobs\<close> d [of jobs] s [of statics]
      show ?thesis
        by (auto simp: validate_def codeViolations_def discoveryJobs_def staticJobs_def first_append
            split: prod.splits option.splits)
    qed
  qed
qed

lemma specViolations_with_jobs:
  assumes "discoveryJobs c \<noteq> [] \<or> staticJobs c \<noteq> []"
  shows "specViolations c = codeViolations c"
  using assms by (auto simp: specViolations_def codeViolations_def discoveryJobs_def staticJobs_def)

lemma specViolations_nil:
  assumes "Discovery_Jobs (ScrapeConf_Discovery c) = None" and "ScrapeConf_Static c = None"
  shows "specViolations c = codeViolations c"
  using assms by (simp add: specViolations_def codeViolations_def discoveryJobs_def staticJobs_def)

lemma codeViolations_no_jobs:
  assumes "discoveryJobs c = []" and "staticJobs c = []"
    and "\<not> (Discovery_Jobs (ScrapeConf_Discovery c) = None \<and> ScrapeConf_Static c = None)"
  shows "codeViolations c = []"
  using assms by (simp add: codeViolations_def)

lemma specViolations_empty: "specViolations c = [] \<Longrightarrow> codeViolations c = []"
  by (cases "discoveryJobs c = [] \<and> staticJobs c = []")
     (auto simp: specViolations_def specViolations_with_jobs [symmetric])

text \<open>
  Claim C8.  Validation is a function of the configuration, and it is fail-fast in the
  order of the spec.  Take the list of all rules of the spec that the configuration
  violates, in the order root invariant (the two job lists must not both be empty),
  discovery jobs in sequence, static jobs in sequence, each job's own rules and then its
  metrics in sequence.  Whenever validation returns an error, that error is the first
  entry of this list: no later violation is reported when an earlier one exists.  When
  the configuration has a job, or when both slices are \<^verbatim>\<open>nil\<close>, validation returns
  exactly the first entry of the list, and no error when the list is empty.
\<close>

theorem C8_first_violation_in_order:
  "(snd (validate c) = Some err \<longrightarrow> first (specViolations c) = Some err)
   \<and> (discoveryJobs c \<noteq> [] \<or> staticJobs c \<noteq> [] \<longrightarrow> snd (validate c) = first (specViolations c))
   \<and> (Discovery_Jobs (ScrapeConf_Discovery c) = None \<and> ScrapeConf_Static c = None
        \<longrightarrow> snd (validate c) = first (specViolations c))"
proof -
  have code: "snd (validate c) = first (codeViolations c)"
    by (rule validate_first)
  have jobs: "snd (validate c) = first (specViolations c)"
    if "discoveryJobs c \<noteq> [] \<or> staticJobs c \<noteq> []"
    using that by (simp add: code specViolations_with_jobs)
  have nil: "snd (validate c) = first (specViolations c)"
    if "Discovery_Jobs (ScrapeConf_Discovery c) = None" "ScrapeConf_Static c = None"
    using that by (simp add: code specViolations_nil)
  have "first (specViolations c) = Some err" if e: "snd (validate c) = Some err"
  proof (cases "discoveryJobs c \<noteq> [] \<or> staticJobs c \<noteq> []")
    case True
    with jobs e show ?thesis by simp
  next
    case False
    show ?thesis
    proof (cases "Discovery_Jobs (ScrapeConf_Discovery c) = None \<and> ScrapeConf_Static c = None")
      case True
      with nil e show ?thesis by simp
    next
      case False
      with \<open>\<not> (discoveryJobs c \<noteq> [] \<or> staticJobs c \<noteq> [])\<close> have "codeViolations c = []"
        by (simp add: codeViolations_no_jobs)
      with code e show ?thesis by simp
    qed
  qed
  with jobs nil show ?thesis by blast
qed

theorem C8_first_violation_in_order_witness:
  "discoveryJobs exC8 \<noteq> []
   \<and> specViolations exC8 =
       [Errorf ''Discovery job [ec2/0]: Regions should not be empty'',
        Errorf ''Metric [/0] in Discovery job [ec2/0]: Name should not be empty'',
        Errorf ''Static job [x/0]: Namespace should not be empty'']
   \<and> snd (validate exC8) = Some (Errorf ''Discovery job [ec2/0]: Regions should not be empty'')
   \<and> first (specViolations exC8)
       = Some (Errorf ''Discovery job [ec2/0]: Regions should not be empty'')
   \<and> snd (validate zeroConf)
       = Some (Errorf ''At least 1 Discovery job or 1 Static must be defined'')
   \<and> first (specViolations zeroConf)
       = Some (Errorf ''At least 1 Discovery job or 1 Static must be defined'')"
proof -
  have d: "discoveryJobs exC8 \<noteq> []"
    by (simp add: exC8_def confOf_def discoveryJobs_def)
  have s: "specViolations exC8 =
       [Errorf ''Discovery job [ec2/0]: Regions should not be empty'',
        Errorf ''Metric [/0] in Discovery job [ec2/0]: Name should not be empty'',
        Errorf ''Static job [x/0]: Namespace should not be empty'']"
    by (simp add: specViolations_def exC8_def confOf_def discoveryJobs_def staticJobs_def
        exJob_def exStatic_def exMetric_def discoveryJobViolations_def staticJobViolations_def
        metricViolations_def metricLabel_def discoveryParent_def staticParent_def mPeriod_def
        supportedServices_def)
  have v: "snd (validate exC8) = Some (Errorf ''Discovery job [ec2/0]: Regions should not be empty'')"
    by (simp add: validate_def exC8_def confOf_def exJob_def validateDiscoveryJob_def
        discoveryParent_def supportedServices_def)
  have z: "Discovery_Jobs (ScrapeConf_Discovery zeroConf) = None \<and> ScrapeConf_Static zeroConf = None"
    by (simp add: zeroConf_def confOf_def)
  have zv: "snd (validate zeroConf)
              = Some (Errorf ''At least 1 Discovery job or 1 Static must be defined'')"
    by (simp add: validate_def zeroConf_def confOf_def)
  note t = C8_first_violation_in_order
             [of exC8 "Errorf ''Discovery job [ec2/0]: Regions should not be empty''"]
  note tz = C8_first_violation_in_order
              [of zeroConf "Errorf ''At least 1 Discovery job or 1 Static must be defined''"]
  from t v have f: "first (specViolations exC8)
                      = Some (Errorf ''Discovery job [ec2/0]: Regions should not be empty'')"
    by blast
  from tz z zv have fz: "first (specViolations zeroConf)
                      = Some (Errorf ''At least 1 Discovery job or 1 Static must be defined'')"
    by metis
  from d s v f zv fz show ?thesis
    by blast
qed

lemma Load_example:
  "Load readsFile (decodesTo decoded) c file =
     (withRoleArnsDefaults decoded, fst (validate decoded), snd (validate decoded))"
  by (rule Load_decoded) (simp_all add: readsFile_def decodesTo_def)

subsection \<open>The root invariant\<close>

text \<open>
  Claim C1.  The root test of \<^verbatim>\<open>validate\<close> compares both slices with \<^verbatim>\<open>nil\<close>.  A
  document that gives both keys the empty sequence decodes to two empty slices that are
  not \<^verbatim>\<open>nil\<close>: both job lists are empty, the root test does not fire, both loops run
  zero times, and \<^verbatim>\<open>Load\<close> returns no error.  Only the document that leaves both keys
  out (both slices \<^verbatim>\<open>nil\<close>) gets the root error.
\<close>

theorem C1_empty_sequences_load_without_error:
  "discoveryJobs (confOf (Some []) (Some [])) = []
   \<and> staticJobs (confOf (Some []) (Some [])) = []
   \<and> Load readsFile (decodesTo (confOf (Some []) (Some []))) zeroConf ''config.yml''
       = (confOf (Some []) (Some []), [], None)
   \<and> snd (snd (Load readsFile (decodesTo (confOf None None)) zeroConf ''config.yml''))
       = Some (Errorf ''At least 1 Discovery job or 1 Static must be defined'')"
  by (simp add: Load_def readsFile_def decodesTo_def confOf_def discoveryJobs_def staticJobs_def
      normalize_def validate_def Let_def defaultJobRoleArns.simps defaultStaticRoleArns.simps)

subsection \<open>The receiver after a failed validation\<close>

text \<open>
  Claim C10.  When the file is read and decoded without error and \<^verbatim>\<open>Load\<close> returns an
  error, the receiver holds the decoded tree with the \<^verbatim>\<open>RoleArns\<close> defaults applied
  (nothing is rolled back), and the error is the one validation gives for that
  normalised receiver.
\<close>

theorem C10_receiver_normalized_on_failure:
  assumes "readFile file = Inr yamlFile" and "unmarshal yamlFile c = (decoded, None)"
    and "snd (snd (Load readFile unmarshal c file)) = Some err"
  shows "fst (Load readFile unmarshal c file) = withRoleArnsDefaults decoded
    \<and> snd (validate (fst (Load readFile unmarshal c file))) = Some err"
proof -
  have L: "Load readFile unmarshal c file =
             (withRoleArnsDefaults decoded, fst (validate decoded), snd (validate decoded))"
    using Load_decoded [of readFile "file" yamlFile unmarshal c decoded] assms(1,2) by simp
  have "snd (validate (withRoleArnsDefaults decoded)) = snd (validate decoded)"
    using validate_normalize [of decoded] by (simp add: normalize_eq)
  with L assms(3) show ?thesis by simp
qed

theorem C10_receiver_normalized_on_failure_witness:
  "snd (snd (Load readsFile (decodesTo exScenarioC) zeroConf ''config.yml''))
     = Some (Errorf ''Static job [x/0]: Namespace should not be empty'')
   \<and> fst (Load readsFile (decodesTo exScenarioC) zeroConf ''config.yml'')
     = confOf None (Some [exStatic ''x'' [] [''eu-west-1''] [''''] []])
   \<and> snd (validate (fst (Load readsFile (decodesTo exScenarioC) zeroConf ''config.yml'')))
     = Some (Errorf ''Static job [x/0]: Namespace should not be empty'')"
proof -
  have e: "snd (snd (Load readsFile (decodesTo exScenarioC) zeroConf ''config.yml''))
             = Some (Errorf ''Static job [x/0]: Namespace should not be empty'')"
    by (simp add: Load_example exScenarioC_def confOf_def validate_def validateStaticJob_def exStatic_def
        staticParent_def)
  have d: "withRoleArnsDefaults exScenarioC = confOf None (Some [exStatic ''x'' [] [''eu-west-1''] [''''] []])"
    by (simp add: withRoleArnsDefaults_def exScenarioC_def confOf_def exStatic_def defaultStatic_def)
  have t: "fst (Load readsFile (decodesTo exScenarioC) zeroConf ''config.yml'') = withRoleArnsDefaults exScenarioC
      \<and> snd (validate (fst (Load readsFile (decodesTo exScenarioC) zeroConf ''config.yml'')))
          = Some (Errorf ''Static job [x/0]: Namespace should not be empty'')"
    by (rule C10_receiver_normalized_on_failure [of readsFile "''config.yml''" "''''"
          "decodesTo exScenarioC" zeroConf exScenarioC
          "Errorf ''Static job [x/0]: Namespace should not be empty''"])
       (simp_all add: readsFile_def decodesTo_def e)
  from t d have "fst (Load readsFile (decodesTo exScenarioC) zeroConf ''config.yml'')
      = confOf None (Some [exStatic ''x'' [] [''eu-west-1''] [''''] []])"
    by simp
  with e t show ?thesis by blast
qed

subsection \<open>Period and length of a metric\<close>

text \<open>
  Claim C4, as stated, fails: a discovery-job metric with an empty name is rejected
  although its effective period, 300, is positive.
\<close>

theorem C4_counterexample:
  "snd (validateMetric (exMetric '''' [''Average''] 300 0) 0 ''Discovery job [ec2/0]''
          (Some (exJob ''ec2'' [''eu-west-1''] [exMetric '''' [''Average''] 300 0] 60 60)))
     = Some (Errorf ''Metric [/0] in Discovery job [ec2/0]: Name should not be empty'')
   \<and> mPeriod (exMetric '''' [''Average''] 300 0)
         (Some (exJob ''ec2'' [''eu-west-1''] [exMetric '''' [''Average''] 300 0] 60 60)) = 300"
  by (simp add: validateMetric_def metricLabel_def mPeriod_def exMetric_def exJob_def)

text \<open>
  Claim C4, amended.  For a metric of a discovery job, the effective period is the
  metric's own period when that is non-zero and the job's period when it is zero.  When
  the metric has a name and at least one statistic, its validation fails exactly when
  the effective period is less than 1, and then with the period-positivity message; a
  metric without a name or without statistics fails before the period is looked at.
\<close>

theorem C4_effective_period:
  assumes "Metric_Name m \<noteq> ''''" and "Metric_Statistics m \<noteq> []"
  shows "mPeriod m (Some j) = (if Metric_Period m \<noteq> 0 then Metric_Period m else Job_Period j)
    \<and> (snd (validateMetric m metricIdx parent (Some j)) \<noteq> None \<longleftrightarrow> mPeriod m (Some j) < 1)
    \<and> snd (validateMetric m metricIdx parent (Some j)) =
        (if mPeriod m (Some j) < 1
         then Some (Errorf (metricLabel m metricIdx parent
                      @ '': Period value should be a positive integer''))
         else None)"
  using assms by (simp add: validateMetric_def mPeriod_def)

theorem C4_effective_period_witness:
  "mPeriod (exMetric ''CPUUtilization'' [''Average''] 0 0)
      (Some (exJob ''ec2'' [''eu-west-1''] [] 0 300)) = 300
   \<and> snd (validateMetric (exMetric ''CPUUtilization'' [''Average''] 0 0) 0 ''Discovery job [ec2/0]''
        (Some (exJob ''ec2'' [''eu-west-1''] [] 0 300))) = None
   \<and> snd (validateMetric (exMetric ''CPUUtilization'' [''Average''] 0 0) 0 ''Discovery job [ec2/0]''
        (Some (exJob ''ec2'' [''eu-west-1''] [] 0 0)))
       = Some (Errorf ''Metric [CPUUtilization/0] in Discovery job [ec2/0]: Period value should be a positive integer'')"
  using C4_effective_period [of "exMetric ''CPUUtilization'' [''Average''] 0 0"
          "exJob ''ec2'' [''eu-west-1''] [] 0 300" 0 "''Discovery job [ec2/0]''"]
        C4_effective_period [of "exMetric ''CPUUtilization'' [''Average''] 0 0"
          "exJob ''ec2'' [''eu-west-1''] [] 0 0" 0 "''Discovery job [ec2/0]''"]
  by (simp add: exMetric_def exJob_def metricLabel_def)

text \<open>
  Claim C7, as stated, fails: a static job whose only metric has length 0 and period 60
  loads without error; the only trace of the zero length is a warning.
\<close>

theorem C7_counterexample:
  "Metric_Length (exMetric ''CPUUtilization'' [''Average''] 60 0) = 0
   \<and> Load readsFile
        (decodesTo (confOf None (Some [exStatic ''x'' ''AWS/EC2'' [''eu-west-1''] []
                                         [exMetric ''CPUUtilization'' [''Average''] 60 0]])))
        zeroConf ''config.yml''
     = (confOf None (Some [exStatic ''x'' ''AWS/EC2'' [''eu-west-1''] ['''']
                             [exMetric ''CPUUtilization'' [''Average''] 60 0]]),
        [''Metric [CPUUtilization/0] in Static job [x/0]: length(0) is smaller than period(60). This can cause that the data requested is not ready and generate data gaps''],
        None)"
  by (simp add: Load_example withRoleArnsDefaults_def defaultStatic_def confOf_def exStatic_def
      exMetric_def validate_def validateStaticJob_def validateMetric_def staticParent_def
      metricLabel_def lengthWarning_def mPeriod_def mLength_def)

text \<open>
  Claim C7, amended.  For a metric of a static job (no enclosing discovery job) that has
  a name, at least one statistic, a positive period and length zero, validation does not
  fail: the code has no positivity check on the length.  The effective length is the
  metric's own zero, which is below the period, so validation logs the one warning that
  the length is smaller than the period and returns no error.
\<close>

theorem C7_zero_length_only_warns:
  assumes "Metric_Name m \<noteq> ''''" and "Metric_Statistics m \<noteq> []"
    and "0 < Metric_Period m" and "Metric_Length m = 0"
  shows "validateMetric m metricIdx parent None = ([lengthWarning m metricIdx parent None], None)"
  using assms by (simp add: validateMetric_def mPeriod_def mLength_def)

theorem C7_zero_length_only_warns_witness:
  "validateMetric (exMetric ''CPUUtilization'' [''Average''] 60 0) 0 ''Static job [x/0]'' None
     = ([''Metric [CPUUtilization/0] in Static job [x/0]: length(0) is smaller than period(60). This can cause that the data requested is not ready and generate data gaps''],
        None)"
  using C7_zero_length_only_warns [of "exMetric ''CPUUtilization'' [''Average''] 60 0" 0
          "''Static job [x/0]''"]
  by (simp add: exMetric_def lengthWarning_def metricLabel_def mPeriod_def mLength_def)

subsection \<open>Which error Load returns\<close>

lemma first_None_iff: "first xs = None \<longleftrightarrow> xs = []"
  by (cases xs) simp_all

lemma rangeViolations_append:
  "rangeViolations v (xs @ ys) n = rangeViolations v xs n @ rangeViolations v ys (n + length xs)"
  by (induction xs arbitrary: n) simp_all

lemma Load_error:
  assumes "readFile file = Inr yamlFile" and "unmarshal yamlFile c = (decoded, None)"
  shows "snd (snd (Load readFile unmarshal c file)) = first (codeViolations decoded)"
  using Load_decoded [of readFile "file" yamlFile unmarshal c decoded] assms
  by (simp add: validate_first)

lemma discoveryJobs_pass:
  assumes "snd (rangeUntilError validateDiscoveryJob jobs n) = None"
  shows "rangeViolations discoveryJobViolations jobs n = []"
proof -
  have "snd (rangeUntilError validateDiscoveryJob jobs n)
          = first (rangeViolations discoveryJobViolations jobs n)"
    by (rule rangeUntilError_first) (rule validateDiscoveryJob_first)
  with assms show ?thesis by (simp add: first_None_iff)
qed

lemma staticJobs_pass:
  assumes "snd (rangeUntilError validateStaticJob jobs n) = None"
  shows "rangeViolations staticJobViolations jobs n = []"
proof -
  have "snd (rangeUntilError validateStaticJob jobs n)
          = first (rangeViolations staticJobViolations jobs n)"
    by (rule rangeUntilError_first) (rule validateStaticJob_first)
  with assms show ?thesis by (simp add: first_None_iff)
qed

lemma metrics_pass:
  assumes "snd (rangeUntilError (\<lambda>metric metricIdx. validateMetric metric metricIdx parent d) ms n) = None"
  shows "rangeViolations (\<lambda>metric metricIdx. metricViolations metric metricIdx parent d) ms n = []"
proof -
  have "snd (rangeUntilError (\<lambda>metric metricIdx. validateMetric metric metricIdx parent d) ms n)
          = first (rangeViolations (\<lambda>metric metricIdx. metricViolations metric metricIdx parent d) ms n)"
    by (rule rangeUntilError_first) (rule validateMetric_first)
  with assms show ?thesis by (simp add: first_None_iff)
qed

lemma codeViolations_with_jobs:
  assumes "discoveryJobs c \<noteq> [] \<or> staticJobs c \<noteq> []"
  shows "codeViolations c = rangeViolations discoveryJobViolations (discoveryJobs c) 0
                          @ rangeViolations staticJobViolations (staticJobs c) 0"
  using assms by (auto simp: codeViolations_def discoveryJobs_def staticJobs_def)

text \<open>
  Claim C3, as stated, fails: validation stops at the first violated rule, so when an
  earlier discovery job breaks a rule the message is about that job and does not hold
  the unsupported type of a later one.
\<close>

theorem C3_counterexample:
  "Job_Type (discoveryJobs exC3 ! 1) = ''notarealservice''
   \<and> \<not> stringInSlice ''notarealservice'' supportedServices
   \<and> snd (snd (Load readsFile (decodesTo exC3) zeroConf ''config.yml''))
       = Some (Errorf ''Discovery job [ec2/0]: Regions should not be empty'')
   \<and> \<not> sublist ''notarealservice'' ''Discovery job [ec2/0]: Regions should not be empty''"
  by (simp add: Load_example exC3_def confOf_def discoveryJobs_def exJob_def validate_def
      validateDiscoveryJob_def discoveryParent_def supportedServices_def sublist_Cons_right)

text \<open>
  Claim C3, amended.  For every configuration containing a discovery job whose type is
  not a case-sensitive exact member of the allow-list, load fails with a validation
  error.  When every discovery job before it passes validation, the error is the one of
  this job: for a non-empty type the message ends with the offending type string, for an
  empty type it says that the type should not be empty, and in both cases it names the
  index of the job.
\<close>

theorem C3_unsupported_type:
  assumes "readFile file = Inr yamlFile" and "unmarshal yamlFile c = (decoded, None)"
    and "discoveryJobs decoded = pre @ j # post"
    and "Job_Type j \<notin> set supportedServices"
  shows "snd (snd (Load readFile unmarshal c file)) \<noteq> None
    \<and> (snd (rangeUntilError validateDiscoveryJob pre 0) = None \<longrightarrow>
         (\<exists>msg. snd (snd (Load readFile unmarshal c file)) = Some (Errorf msg)
            \<and> msg = (if Job_Type j = ''''
                     then ''Discovery job ['' @ fmt_d (int (length pre))
                            @ '']: Type should not be empty''
                     else ''Discovery job ['' @ fmt_d (int (length pre))
                            @ '']: Service is not in known list!: '' @ Job_Type j)
            \<and> sublist (Job_Type j) msg
            \<and> sublist (fmt_d (int (length pre))) msg))"
proof -
  define msg where "msg = (if Job_Type j = ''''
                     then ''Discovery job ['' @ fmt_d (int (length pre))
                            @ '']: Type should not be empty''
                     else ''Discovery job ['' @ fmt_d (int (length pre))
                            @ '']: Service is not in known list!: '' @ Job_Type j)"
  have own: "first (discoveryJobViolations j (length pre) @ later) = Some (Errorf msg)" for later
    using assms(4)
    by (simp add: discoveryJobViolations_def stringInSlice_iff first_append msg_def)
  have err: "snd (snd (Load readFile unmarshal c file)) = first (codeViolations decoded)"
    using assms(1,2) by (rule Load_error)
  have v: "codeViolations decoded =
             rangeViolations discoveryJobViolations pre 0
             @ (discoveryJobViolations j (length pre)
                @ (rangeViolations discoveryJobViolations post (Suc (length pre))
                   @ rangeViolations staticJobViolations (staticJobs decoded) 0))"
    using assms(3) by (simp add: codeViolations_with_jobs rangeViolations_append)
  have "first (codeViolations decoded) \<noteq> None"
    unfolding v first_append [of "rangeViolations discoveryJobViolations pre 0"] own
    by (simp split: option.splits)
  moreover have "first (codeViolations decoded) = Some (Errorf msg)"
    if "snd (rangeUntilError validateDiscoveryJob pre 0) = None"
    unfolding v discoveryJobs_pass [OF that] by (simp add: own)
  moreover have "sublist (Job_Type j) msg"
  proof (cases "Job_Type j = ''''")
    case True
    then show ?thesis by simp
  next
    case False
    then have "msg = (''Discovery job ['' @ fmt_d (int (length pre))
                        @ '']: Service is not in known list!: '') @ Job_Type j"
      by (simp add: msg_def)
    then show ?thesis
      by (simp only: sublist_append_leftI)
  qed
  moreover have "sublist (fmt_d (int (length pre))) msg"
  proof -
    have "msg = ''Discovery job ['' @ fmt_d (int (length pre))
                  @ (if Job_Type j = '''' then '']: Type should not be empty''
                     else '']: Service is not in known list!: '' @ Job_Type j)"
      by (simp add: msg_def)
    then show ?thesis
      by (simp only: sublist_appendI)
  qed
  ultimately show ?thesis
    unfolding err msg_def [symmetric] by simp
qed

theorem C3_unsupported_type_witness:
  "snd (snd (Load readsFile (decodesTo exScenarioD) zeroConf ''config.yml''))
     = Some (Errorf ''Discovery job [0]: Service is not in known list!: notarealservice'')
   \<and> sublist ''notarealservice''
        ''Discovery job [0]: Service is not in known list!: notarealservice''"
proof -
  have t: "''notarealservice'' \<notin> set supportedServices"
    by (simp add: supportedServices_def)
  have p: "snd (rangeUntilError validateDiscoveryJob [] 0) = None"
    by simp
  have "snd (snd (Load readsFile (decodesTo exScenarioD) zeroConf ''config.yml'')) \<noteq> None
    \<and> (snd (rangeUntilError validateDiscoveryJob [] 0) = None \<longrightarrow>
         (\<exists>msg. snd (snd (Load readsFile (decodesTo exScenarioD) zeroConf ''config.yml'')) = Some (Errorf msg)
            \<and> msg = (if Job_Type (exJob ''notarealservice'' [''eu-west-1''] [] 0 0) = ''''
                     then ''Discovery job ['' @ fmt_d (int (length ([] :: Job list)))
                            @ '']: Type should not be empty''
                     else ''Discovery job ['' @ fmt_d (int (length ([] :: Job list)))
                            @ '']: Service is not in known list!: ''
                            @ Job_Type (exJob ''notarealservice'' [''eu-west-1''] [] 0 0))
            \<and> sublist (Job_Type (exJob ''notarealservice'' [''eu-west-1''] [] 0 0)) msg
            \<and> sublist (fmt_d (int (length ([] :: Job list)))) msg))"
    by (rule C3_unsupported_type [of readsFile "''config.yml''" "''''" "decodesTo exScenarioD" zeroConf exScenarioD
          "[]" "exJob ''notarealservice'' [''eu-west-1''] [] 0 0" "[]"])
       (simp_all add: readsFile_def decodesTo_def exScenarioD_def confOf_def discoveryJobs_def exJob_def t)
  with p show ?thesis
    by (auto simp: exJob_def)
qed

text \<open>
  Claim C9, as stated, fails: discovery jobs are validated before static jobs, so a
  discovery job that breaks a rule decides the message.
\<close>

theorem C9_counterexample:
  "Static_Name (staticJobs exC9 ! 0) = ''x''
   \<and> Static_Namespace (staticJobs exC9 ! 0) = ''''
   \<and> snd (snd (Load readsFile (decodesTo exC9) zeroConf ''config.yml''))
       = Some (Errorf ''Discovery job [0]: Type should not be empty'')
   \<and> \<not> sublist ''Namespace should not be empty'' ''Discovery job [0]: Type should not be empty''"
  by (simp add: Load_example exC9_def confOf_def staticJobs_def exJob_def exStatic_def validate_def
      validateDiscoveryJob_def sublist_Cons_right)

text \<open>
  Claim C9, amended.  For every configuration whose static job at index 0 has a
  non-empty name and an empty namespace, load fails with a validation error; when the
  configuration's discovery jobs (if any) all pass validation, the message is
  \<open>Static job [NAME/0]: Namespace should not be empty\<close>: it holds the phrase, the name of
  the job and the index 0.
\<close>

theorem C9_static_namespace_empty:
  assumes "readFile file = Inr yamlFile" and "unmarshal yamlFile c = (decoded, None)"
    and "staticJobs decoded = j # rest"
    and "Static_Name j \<noteq> ''''" and "Static_Namespace j = ''''"
  shows "snd (snd (Load readFile unmarshal c file)) \<noteq> None
    \<and> (snd (rangeUntilError validateDiscoveryJob (discoveryJobs decoded) 0) = None \<longrightarrow>
         snd (snd (Load readFile unmarshal c file))
           = Some (Errorf (''Static job ['' @ Static_Name j @ ''/'' @ fmt_d 0
                             @ '']: Namespace should not be empty'')))
    \<and> sublist ''Namespace should not be empty''
         (''Static job ['' @ Static_Name j @ ''/'' @ fmt_d 0 @ '']: Namespace should not be empty'')
    \<and> sublist (Static_Name j)
         (''Static job ['' @ Static_Name j @ ''/'' @ fmt_d 0 @ '']: Namespace should not be empty'')
    \<and> sublist ''0''
         (''Static job ['' @ Static_Name j @ ''/'' @ fmt_d 0 @ '']: Namespace should not be empty'')"
proof -
  let ?msg = "''Static job ['' @ Static_Name j @ ''/'' @ fmt_d 0 @ '']: Namespace should not be empty''"
  have own: "first (staticJobViolations j 0 @ later) = Some (Errorf ?msg)" for later
    using assms(4,5) by (simp add: staticJobViolations_def first_append staticParent_def)
  have err: "snd (snd (Load readFile unmarshal c file)) = first (codeViolations decoded)"
    using assms(1,2) by (rule Load_error)
  have v: "codeViolations decoded =
             rangeViolations discoveryJobViolations (discoveryJobs decoded) 0
             @ (staticJobViolations j 0 @ rangeViolations staticJobViolations rest (Suc 0))"
    using assms(3) by (simp add: codeViolations_with_jobs)
  have "first (codeViolations decoded) \<noteq> None"
    unfolding v first_append [of "rangeViolations discoveryJobViolations (discoveryJobs decoded) 0"] own
    by (simp split: option.splits)
  moreover have "first (codeViolations decoded) = Some (Errorf ?msg)"
    if "snd (rangeUntilError validateDiscoveryJob (discoveryJobs decoded) 0) = None"
    unfolding v discoveryJobs_pass [OF that] by (simp add: own)
  moreover have "sublist ''Namespace should not be empty'' ?msg"
  proof -
    have "?msg = (''Static job ['' @ Static_Name j @ ''/'' @ fmt_d 0 @ '']: '')
                   @ ''Namespace should not be empty''"
      by simp
    then show ?thesis
      by (simp only: sublist_append_leftI)
  qed
  moreover have "sublist (Static_Name j) ?msg"
    by (rule sublist_appendI)
  moreover have "sublist ''0'' ?msg"
  proof -
    have "?msg = (''Static job ['' @ Static_Name j @ ''/'') @ ''0'' @ '']: Namespace should not be empty''"
      by simp
    then show ?thesis
      by (simp only: sublist_appendI)
  qed
  ultimately show ?thesis
    unfolding err by simp
qed

theorem C9_static_namespace_empty_witness:
  "snd (snd (Load readsFile (decodesTo exScenarioC) zeroConf ''config.yml''))
     = Some (Errorf ''Static job [x/0]: Namespace should not be empty'')
   \<and> sublist ''Namespace should not be empty'' ''Static job [x/0]: Namespace should not be empty''
   \<and> sublist ''x'' ''Static job [x/0]: Namespace should not be empty''"
proof -
  have p: "snd (rangeUntilError validateDiscoveryJob (discoveryJobs exScenarioC) 0) = None"
    by (simp add: exScenarioC_def confOf_def discoveryJobs_def)
  have "snd (snd (Load readsFile (decodesTo exScenarioC) zeroConf ''config.yml'')) \<noteq> None
    \<and> (snd (rangeUntilError validateDiscoveryJob (discoveryJobs exScenarioC) 0) = None \<longrightarrow>
         snd (snd (Load readsFile (decodesTo exScenarioC) zeroConf ''config.yml''))
           = Some (Errorf (''Static job ['' @ Static_Name (exStatic ''x'' [] [''eu-west-1''] [] [])
                             @ ''/'' @ fmt_d 0 @ '']: Namespace should not be empty'')))
    \<and> sublist ''Namespace should not be empty''
         (''Static job ['' @ Static_Name (exStatic ''x'' [] [''eu-west-1''] [] []) @ ''/'' @ fmt_d 0
            @ '']: Namespace should not be empty'')
    \<and> sublist (Static_Name (exStatic ''x'' [] [''eu-west-1''] [] []))
         (''Static job ['' @ Static_Name (exStatic ''x'' [] [''eu-west-1''] [] []) @ ''/'' @ fmt_d 0
            @ '']: Namespace should not be empty'')
    \<and> sublist ''0''
         (''Static job ['' @ Static_Name (exStatic ''x'' [] [''eu-west-1''] [] []) @ ''/'' @ fmt_d 0
            @ '']: Namespace should not be empty'')"
    by (rule C9_static_namespace_empty [of readsFile "''config.yml''" "''''" "decodesTo exScenarioC"
          zeroConf exScenarioC "exStatic ''x'' [] [''eu-west-1''] [] []" "[]"])
       (simp_all add: readsFile_def decodesTo_def exScenarioC_def confOf_def staticJobs_def exStatic_def)
  with p show ?thesis
    by (simp add: exStatic_def)
qed

text \<open>
  Claim C5, as stated, fails: the statistics of a metric are checked before its period,
  so a static-job metric with period zero and no statistics is rejected with the
  statistics message, not with the period-positivity message.
\<close>

theorem C5_counterexample:
  "Metric_Period (Static_Metrics (staticJobs exC5 ! 0) ! 0) = 0
   \<and> snd (snd (Load readsFile (decodesTo exC5) zeroConf ''config.yml''))
       = Some (Errorf ''Metric [CPUUtilization/0] in Static job [x/0]: Statistics should not be empty'')
   \<and> Errorf ''Metric [CPUUtilization/0] in Static job [x/0]: Statistics should not be empty''
       \<noteq> Errorf ''Metric [CPUUtilization/0] in Static job [x/0]: Period value should be a positive integer''"
  by (simp add: Load_example exC5_def confOf_def staticJobs_def exStatic_def exMetric_def
      validate_def validateStaticJob_def validateMetric_def staticParent_def metricLabel_def)

text \<open>
  Claim C5, amended.  For every metric of a static job whose period is zero, load fails
  with a validation error: the metric's period is used as it is, a static job has no
  period to inherit.  The error is the period-positivity error of that metric when no
  rule is violated before it: all discovery jobs and the earlier static jobs pass, the job
  has a name, a namespace and a region, its earlier metrics pass, and the metric has a
  name and at least one statistic.
\<close>

theorem C5_static_zero_period:
  assumes "readFile file = Inr yamlFile" and "unmarshal yamlFile c = (decoded, None)"
    and "staticJobs decoded = pre @ j # post"
    and "Static_Metrics j = mpre @ m # mpost"
    and "Metric_Period m = 0"
  shows "snd (snd (Load readFile unmarshal c file)) \<noteq> None
    \<and> (snd (rangeUntilError validateDiscoveryJob (discoveryJobs decoded) 0) = None
         \<and> snd (rangeUntilError validateStaticJob pre 0) = None
         \<and> Static_Name j \<noteq> '''' \<and> Static_Namespace j \<noteq> '''' \<and> Static_Regions j \<noteq> []
         \<and> snd (rangeUntilError
                  (\<lambda>metric metricIdx.
                     validateMetric metric metricIdx (staticParent j (length pre)) None)
                  mpre 0) = None
         \<and> Metric_Name m \<noteq> '''' \<and> Metric_Statistics m \<noteq> []
       \<longrightarrow> snd (snd (Load readFile unmarshal c file))
             = Some (Errorf (metricLabel m (length mpre) (staticParent j (length pre))
                               @ '': Period value should be a positive integer'')))"
proof -
  let ?parent = "staticParent j (length pre)"
  let ?mv = "\<lambda>metric metricIdx. metricViolations metric metricIdx ?parent None"
  let ?perr = "Errorf (metricLabel m (length mpre) ?parent
                         @ '': Period value should be a positive integer'')"
  have err: "snd (snd (Load readFile unmarshal c file)) = first (codeViolations decoded)"
    using assms(1,2) by (rule Load_error)
  have mv: "metricViolations m (length mpre) ?parent None =
              (if Metric_Name m = ''''
               then [Errorf (metricLabel m (length mpre) ?parent @ '': Name should not be empty'')]
               else [])
              @ (if Metric_Statistics m = []
                 then [Errorf (metricLabel m (length mpre) ?parent
                                 @ '': Statistics should not be empty'')]
                 else [])
              @ [?perr]"
    using assms(5) by (simp add: metricViolations_def mPeriod_def)
  have ms: "rangeViolations ?mv (Static_Metrics j) 0 =
              rangeViolations ?mv mpre 0
              @ (metricViolations m (length mpre) ?parent None
                 @ rangeViolations ?mv mpost (Suc (length mpre)))"
    using assms(4) by (simp add: rangeViolations_append)
  have sv: "staticJobViolations j (length pre) =
              (if Static_Name j = ''''
               then [Errorf (''Static job ['' @ fmt_d (int (length pre))
                               @ '']: Name should not be empty'')]
               else [])
              @ (if Static_Namespace j = ''''
                 then [Errorf (?parent @ '': Namespace should not be empty'')] else [])
              @ (if Static_Regions j = []
                 then [Errorf (?parent @ '': Regions should not be empty'')] else [])
              @ rangeViolations ?mv (Static_Metrics j) 0"
    by (simp add: staticJobViolations_def)
  have v: "codeViolations decoded =
             rangeViolations discoveryJobViolations (discoveryJobs decoded) 0
             @ (rangeViolations staticJobViolations pre 0
                @ (staticJobViolations j (length pre)
                   @ rangeViolations staticJobViolations post (Suc (length pre))))"
    using assms(3) by (simp add: codeViolations_with_jobs rangeViolations_append)
  have "metricViolations m (length mpre) ?parent None \<noteq> []"
    unfolding mv by simp
  then have "staticJobViolations j (length pre) \<noteq> []"
    unfolding sv ms by simp
  then have "codeViolations decoded \<noteq> []"
    unfolding v by simp
  then have fails: "first (codeViolations decoded) \<noteq> None"
    by (simp add: first_None_iff)
  have "first (codeViolations decoded) = Some ?perr"
    if d: "snd (rangeUntilError validateDiscoveryJob (discoveryJobs decoded) 0) = None"
      and p: "snd (rangeUntilError validateStaticJob pre 0) = None"
      and j: "Static_Name j \<noteq> ''''" "Static_Namespace j \<noteq> ''''" "Static_Regions j \<noteq> []"
      and mp: "snd (rangeUntilError
                  (\<lambda>metric metricIdx. validateMetric metric metricIdx ?parent None) mpre 0) = None"
      and m: "Metric_Name m \<noteq> ''''" "Metric_Statistics m \<noteq> []"
  proof -
    have "staticJobViolations j (length pre)
            = ?perr # rangeViolations ?mv mpost (Suc (length mpre))"
      unfolding sv ms mv metrics_pass [OF mp] using j m by simp
    then show ?thesis
      unfolding v discoveryJobs_pass [OF d] staticJobs_pass [OF p] by simp
  qed
  with fails show ?thesis
    unfolding err by blast
qed

theorem C5_static_zero_period_witness:
  "snd (snd (Load readsFile (decodesTo exC5ok) zeroConf ''config.yml''))
     = Some (Errorf ''Metric [CPUUtilization/0] in Static job [x/0]: Period value should be a positive integer'')"
proof -
  have "snd (snd (Load readsFile (decodesTo exC5ok) zeroConf ''config.yml'')) \<noteq> None
    \<and> (snd (rangeUntilError validateDiscoveryJob (discoveryJobs exC5ok) 0) = None
         \<and> snd (rangeUntilError validateStaticJob [] 0) = None
         \<and> Static_Name (staticJobs exC5ok ! 0) \<noteq> ''''
         \<and> Static_Namespace (staticJobs exC5ok ! 0) \<noteq> ''''
         \<and> Static_Regions (staticJobs exC5ok ! 0) \<noteq> []
         \<and> snd (rangeUntilError
                  (\<lambda>metric metricIdx.
                     validateMetric metric metricIdx
                       (staticParent (staticJobs exC5ok ! 0) (length ([] :: Static list))) None)
                  [] 0) = None
         \<and> Metric_Name (exMetric ''CPUUtilization'' [''Average''] 0 0) \<noteq> ''''
         \<and> Metric_Statistics (exMetric ''CPUUtilization'' [''Average''] 0 0) \<noteq> []
       \<longrightarrow> snd (snd (Load readsFile (decodesTo exC5ok) zeroConf ''config.yml''))
             = Some (Errorf (metricLabel (exMetric ''CPUUtilization'' [''Average''] 0 0)
                               (length ([] :: Metric list))
                               (staticParent (staticJobs exC5ok ! 0) (length ([] :: Static list)))
                               @ '': Period value should be a positive integer'')))"
    by (rule C5_static_zero_period [of readsFile "''config.yml''" "''''" "decodesTo exC5ok" zeroConf
          exC5ok "[]" "staticJobs exC5ok ! 0" "[]" "[]"
          "exMetric ''CPUUtilization'' [''Average''] 0 0" "[]"])
       (simp_all add: readsFile_def decodesTo_def exC5ok_def confOf_def staticJobs_def exStatic_def
          exMetric_def)
  then show ?thesis
    by (simp add: exC5ok_def confOf_def staticJobs_def discoveryJobs_def exStatic_def exMetric_def
        metricLabel_def staticParent_def)
qed

subsection \<open>What validation logs\<close>

lemma rangeUntilError_log:
  assumes "snd (rangeUntilError body xs n) = None" and "i < length xs"
  shows "set (fst (body (xs ! i) (n + i))) \<subseteq> set (fst (rangeUntilError body xs n))"
  using assms
proof (induction xs arbitrary: n i)
  case Nil
  then show ?case by simp
next
  case (Cons x xs)
  from Cons.prems(1) have ok: "snd (body x n) = None" "snd (rangeUntilError body xs (Suc n)) = None"
    unfolding rangeUntilError_Cons_None by simp_all
  then have whole: "fst (rangeUntilError body (x # xs) n)
                      = fst (body x n) @ fst (rangeUntilError body xs (Suc n))"
    by (auto split: prod.splits option.splits)
  show ?case
  proof (cases i)
    case 0
    then show ?thesis unfolding whole by simp
  next
    case (Suc i')
    with Cons.prems(2) have "i' < length xs" by simp
    from Cons.IH [OF ok(2) this] Suc show ?thesis
      unfolding whole by auto
  qed
qed

lemma validate_log:
  assumes "snd (validate c) = None"
  shows "snd (rangeUntilError validateDiscoveryJob (discoveryJobs c) 0) = None"
    and "snd (rangeUntilError validateStaticJob (staticJobs c) 0) = None"
    and "fst (validate c) = fst (rangeUntilError validateDiscoveryJob (discoveryJobs c) 0)
                              @ fst (rangeUntilError validateStaticJob (staticJobs c) 0)"
  using assms
  by (auto simp: validate_def discoveryJobs_def staticJobs_def
      split: if_splits option.splits prod.splits)

lemma validateDiscoveryJob_passed:
  assumes "snd (validateDiscoveryJob j idx) = None"
  shows "validateDiscoveryJob j idx =
           rangeUntilError
             (\<lambda>metric metricIdx. validateMetric metric metricIdx (discoveryParent j idx) (Some j))
             (Job_Metrics j) 0"
  using assms by (auto simp: validateDiscoveryJob_def split: if_splits option.splits)

lemma validateStaticJob_passed:
  assumes "snd (validateStaticJob j idx) = None"
  shows "validateStaticJob j idx =
           rangeUntilError
             (\<lambda>metric metricIdx. validateMetric metric metricIdx (staticParent j idx) None)
             (Static_Metrics j) 0"
  using assms by (auto simp: validateStaticJob_def split: if_splits)

lemma validateMetric_passed:
  assumes "snd (validateMetric m k parent d) = None" and "mLength m d < mPeriod m d"
  shows "validateMetric m k parent d = ([lengthWarning m k parent d], None)"
  using assms by (auto simp: validateMetric_def split: if_splits)

lemma discovery_warning_logged:
  assumes "snd (validate c) = None"
    and "i < length (discoveryJobs c)" and "k < length (Job_Metrics (discoveryJobs c ! i))"
    and "mLength (Job_Metrics (discoveryJobs c ! i) ! k) (Some (discoveryJobs c ! i))
           < mPeriod (Job_Metrics (discoveryJobs c ! i) ! k) (Some (discoveryJobs c ! i))"
  shows "lengthWarning (Job_Metrics (discoveryJobs c ! i) ! k) k
           (discoveryParent (discoveryJobs c ! i) i) (Some (discoveryJobs c ! i))
         \<in> set (fst (validate c))"
proof -
  let ?j = "discoveryJobs c ! i"
  let ?m = "Job_Metrics ?j ! k"
  let ?body = "\<lambda>metric metricIdx. validateMetric metric metricIdx (discoveryParent ?j i) (Some ?j)"
  note v = validate_log [OF assms(1)]
  have jok: "snd (validateDiscoveryJob ?j i) = None"
    using v(1) assms(2) by (simp add: rangeUntilError_None_iff)
  have jlog: "set (fst (validateDiscoveryJob ?j i)) \<subseteq> set (fst (validate c))"
    using rangeUntilError_log [OF v(1) assms(2)] by (auto simp: v(3))
  note jeq = validateDiscoveryJob_passed [OF jok]
  have msok: "snd (rangeUntilError ?body (Job_Metrics ?j) 0) = None"
    using jok jeq by simp
  then have mok: "snd (?body ?m k) = None"
    using assms(3) by (simp add: rangeUntilError_None_iff)
  have "set (fst (?body ?m k)) \<subseteq> set (fst (rangeUntilError ?body (Job_Metrics ?j) 0))"
    using rangeUntilError_log [OF msok assms(3)] by simp
  moreover have "?body ?m k = ([lengthWarning ?m k (discoveryParent ?j i) (Some ?j)], None)"
    using mok assms(4) by (rule validateMetric_passed)
  ultimately show ?thesis
    using jlog jeq by auto
qed

lemma static_warning_logged:
  assumes "snd (validate c) = None"
    and "i < length (staticJobs c)" and "k < length (Static_Metrics (staticJobs c ! i))"
    and "mLength (Static_Metrics (staticJobs c ! i) ! k) None
           < mPeriod (Static_Metrics (staticJobs c ! i) ! k) None"
  shows "lengthWarning (Static_Metrics (staticJobs c ! i) ! k) k
           (staticParent (staticJobs c ! i) i) None
         \<in> set (fst (validate c))"
proof -
  let ?j = "staticJobs c ! i"
  let ?m = "Static_Metrics ?j ! k"
  let ?body = "\<lambda>metric metricIdx. validateMetric metric metricIdx (staticParent ?j i) None"
  note v = validate_log [OF assms(1)]
  have jok: "snd (validateStaticJob ?j i) = None"
    using v(2) assms(2) by (simp add: rangeUntilError_None_iff)
  have jlog: "set (fst (validateStaticJob ?j i)) \<subseteq> set (fst (validate c))"
    using rangeUntilError_log [OF v(2) assms(2)] by (auto simp: v(3))
  note jeq = validateStaticJob_passed [OF jok]
  have msok: "snd (rangeUntilError ?body (Static_Metrics ?j) 0) = None"
    using jok jeq by simp
  then have mok: "snd (?body ?m k) = None"
    using assms(3) by (simp add: rangeUntilError_None_iff)
  have "set (fst (?body ?m k)) \<subseteq> set (fst (rangeUntilError ?body (Static_Metrics ?j) 0))"
    using rangeUntilError_log [OF msok assms(3)] by simp
  moreover have "?body ?m k = ([lengthWarning ?m k (staticParent ?j i) None], None)"
    using mok assms(4) by (rule validateMetric_passed)
  ultimately show ?thesis
    using jlog jeq by auto
qed

text \<open>
  Claim C6.  A metric whose effective length is below its effective period is not
  rejected for it: when its name, statistics and period pass, validation of the metric
  logs exactly the length-smaller-than-period warning and returns no error.  When none
  of the failing tests of validation fires on the decoded configuration (which is so in
  particular when it violates no rule of the spec), \<^verbatim>\<open>Load\<close> returns no error, and
  the warning of every such metric, of a discovery job (with the job-level length and
  period as fallbacks) or of a static job, is among the lines logged.
\<close>

theorem C6_short_length_only_warns:
  assumes "readFile file = Inr yamlFile" and "unmarshal yamlFile c = (decoded, None)"
  shows "(Metric_Name m \<noteq> '''' \<and> Metric_Statistics m \<noteq> [] \<and> 1 \<le> mPeriod m d
            \<and> mLength m d < mPeriod m d
          \<longrightarrow> validateMetric m metricIdx parent d = ([lengthWarning m metricIdx parent d], None))
    \<and> (codeViolations decoded = [] \<longrightarrow> snd (snd (Load readFile unmarshal c file)) = None)
    \<and> (codeViolations decoded = [] \<and> i < length (discoveryJobs decoded)
          \<and> discoveryJobs decoded ! i = j \<and> k < length (Job_Metrics j) \<and> Job_Metrics j ! k = dm
          \<and> mLength dm (Some j) < mPeriod dm (Some j)
        \<longrightarrow> lengthWarning dm k (discoveryParent j i) (Some j)
              \<in> set (fst (snd (Load readFile unmarshal c file))))
    \<and> (codeViolations decoded = [] \<and> i < length (staticJobs decoded)
          \<and> staticJobs decoded ! i = s \<and> k < length (Static_Metrics s) \<and> Static_Metrics s ! k = sm
          \<and> mLength sm None < mPeriod sm None
        \<longrightarrow> lengthWarning sm k (staticParent s i) None
              \<in> set (fst (snd (Load readFile unmarshal c file))))"
proof -
  have L: "Load readFile unmarshal c file =
             (withRoleArnsDefaults decoded, fst (validate decoded), snd (validate decoded))"
    using Load_decoded [of readFile "file" yamlFile unmarshal c decoded] assms by simp
  have ok: "snd (validate decoded) = None" if "codeViolations decoded = []"
    using that by (simp add: validate_first)
  have "validateMetric m metricIdx parent d = ([lengthWarning m metricIdx parent d], None)"
    if "Metric_Name m \<noteq> ''''" "Metric_Statistics m \<noteq> []" "1 \<le> mPeriod m d"
      "mLength m d < mPeriod m d"
    using that by (simp add: validateMetric_def)
  moreover have "lengthWarning dm k (discoveryParent j i) (Some j) \<in> set (fst (validate decoded))"
    if "codeViolations decoded = []" "i < length (discoveryJobs decoded)"
      "discoveryJobs decoded ! i = j" "k < length (Job_Metrics j)" "Job_Metrics j ! k = dm"
      "mLength dm (Some j) < mPeriod dm (Some j)"
    using discovery_warning_logged [of decoded i k] ok that by auto
  moreover have "lengthWarning sm k (staticParent s i) None \<in> set (fst (validate decoded))"
    if "codeViolations decoded = []" "i < length (staticJobs decoded)"
      "staticJobs decoded ! i = s" "k < length (Static_Metrics s)" "Static_Metrics s ! k = sm"
      "mLength sm None < mPeriod sm None"
    using static_warning_logged [of decoded i k] ok that by auto
  ultimately show ?thesis
    unfolding L using ok by simp
qed

theorem C6_short_length_only_warns_witness:
  "codeViolations exScenarioB = []
   \<and> snd (snd (Load readsFile (decodesTo exScenarioB) zeroConf ''config.yml'')) = None
   \<and> ''Metric [CPUUtilization/0] in Discovery job [ec2/0]: length(60) is smaller than period(300). This can cause that the data requested is not ready and generate data gaps''
       \<in> set (fst (snd (Load readsFile (decodesTo exScenarioB) zeroConf ''config.yml'')))
   \<and> ''Metric [CPUUtilization/0] in Static job [x/0]: length(0) is smaller than period(60). This can cause that the data requested is not ready and generate data gaps''
       \<in> set (fst (snd (Load readsFile (decodesTo exScenarioB) zeroConf ''config.yml'')))"
proof -
  let ?j = "exJob ''ec2'' [''eu-west-1''] [exMetric ''CPUUtilization'' [''Average''] 300 0] 60 0"
  let ?dm = "exMetric ''CPUUtilization'' [''Average''] 300 0"
  let ?s = "exStatic ''x'' ''AWS/EC2'' [''eu-west-1''] [] [exMetric ''CPUUtilization'' [''Average''] 60 0]"
  let ?sm = "exMetric ''CPUUtilization'' [''Average''] 60 0"
  have v: "codeViolations exScenarioB = []"
    by (simp add: codeViolations_def exScenarioB_def confOf_def discoveryJobs_def staticJobs_def exJob_def
        exStatic_def exMetric_def discoveryJobViolations_def staticJobViolations_def
        metricViolations_def mPeriod_def supportedServices_def)
  have r: "readsFile ''config.yml'' = Inr ''''"
    by (simp add: readsFile_def)
  have u: "decodesTo exScenarioB '''' zeroConf = (exScenarioB, None)"
    by (simp add: decodesTo_def)
  note t = C6_short_length_only_warns [of readsFile "''config.yml''" "''''" "decodesTo exScenarioB"
      zeroConf exScenarioB ?dm "Some ?j" 0 "''Discovery job [ec2/0]''" 0 ?j 0 ?dm ?s ?sm, OF r u]
  have dj: "discoveryJobs exScenarioB = [?j]" and sj: "staticJobs exScenarioB = [?s]"
    by (simp_all add: exScenarioB_def confOf_def discoveryJobs_def staticJobs_def)
  have dw: "lengthWarning ?dm 0 (discoveryParent ?j 0) (Some ?j) =
      ''Metric [CPUUtilization/0] in Discovery job [ec2/0]: length(60) is smaller than period(300). This can cause that the data requested is not ready and generate data gaps''"
    by (simp add: lengthWarning_def metricLabel_def discoveryParent_def mPeriod_def mLength_def
        exMetric_def exJob_def)
  have sw: "lengthWarning ?sm 0 (staticParent ?s 0) None =
      ''Metric [CPUUtilization/0] in Static job [x/0]: length(0) is smaller than period(60). This can cause that the data requested is not ready and generate data gaps''"
    by (simp add: lengthWarning_def metricLabel_def staticParent_def mPeriod_def mLength_def
        exMetric_def exStatic_def)
  have dl: "mLength ?dm (Some ?j) < mPeriod ?dm (Some ?j)" and sl: "mLength ?sm None < mPeriod ?sm None"
    by (simp_all add: mPeriod_def mLength_def exMetric_def exJob_def)
  have jm: "Job_Metrics ?j = [?dm]" and smm: "Static_Metrics ?s = [?sm]"
    by (simp_all add: exJob_def exStatic_def)
  from t v dj sj dl sl jm smm
  have "snd (snd (Load readsFile (decodesTo exScenarioB) zeroConf ''config.yml'')) = None"
    and "lengthWarning ?dm 0 (discoveryParent ?j 0) (Some ?j)
           \<in> set (fst (snd (Load readsFile (decodesTo exScenarioB) zeroConf ''config.yml'')))"
    and "lengthWarning ?sm 0 (staticParent ?s 0) None
           \<in> set (fst (snd (Load readsFile (decodesTo exScenarioB) zeroConf ''config.yml'')))"
    by simp_all
  then show ?thesis
    using v by (simp only: dw sw simp_thms)
qed

end
